theory Spec2Isabelle
  imports Main "HOL-Library.Sublist"
begin

section \<open>Python values and strings\<close>

text \<open>
  The exporter handles values that come out of \<^verbatim>\<open>json.load\<close> and out of the
  command line: \<^verbatim>\<open>None\<close>, booleans, integers, strings, lists and dictionaries.
  Floating point numbers are left out. A string is a list of characters, each a code
  point below 256.
\<close>

datatype pyval =
    PNone
  | PBool bool
  | PInt int
  | PStr string
  | PList "pyval list"
  | PDict "(string \<times> pyval) list"

text \<open>The exceptions the program can end with. \<^verbatim>\<open>sys.exit(c)\<close> raises
  \<^verbatim>\<open>SystemExit\<close> carrying \<^verbatim>\<open>c\<close>; \<^verbatim>\<open>sys.exit()\<close> carries \<^verbatim>\<open>None\<close>.\<close>

datatype error =
    SystemExit "int option"
  | TypeError
  | IndexError
  | KeyError
  | ImportError
  | FileNotFoundError
  | OSError string

text \<open>The status the interpreter hands to the operating system when the exception is
  not caught: \<^verbatim>\<open>SystemExit(None)\<close> is status 0, \<^verbatim>\<open>SystemExit(n)\<close> is n, any other
  exception prints a traceback and gives status 1.\<close>

fun exit_status :: "error \<Rightarrow> int" where
  "exit_status (SystemExit None) = 0"
| "exit_status (SystemExit (Some n)) = n"
| "exit_status _ = 1"

text \<open>\<^verbatim>\<open>str.lower()\<close> on code points below 256: the ASCII capitals and the Latin-1
  capitals (192 to 222 without the multiplication sign 215) move up by 32.\<close>

definition lower_char :: "char \<Rightarrow> char" where
  "lower_char c =
     (let n = (of_char c :: nat)
      in if (65 \<le> n \<and> n \<le> 90) \<or> (192 \<le> n \<and> n \<le> 222 \<and> n \<noteq> 215)
         then char_of (n + 32) else c)"

definition py_lower :: "string \<Rightarrow> string" where
  "py_lower s = map lower_char s"

text \<open>Truth value testing (\<^verbatim>\<open>if x:\<close>).\<close>

fun truthy :: "pyval \<Rightarrow> bool" where
  "truthy PNone = False"
| "truthy (PBool b) = b"
| "truthy (PInt i) = (i \<noteq> 0)"
| "truthy (PStr s) = (s \<noteq> [])"
| "truthy (PList xs) = (xs \<noteq> [])"
| "truthy (PDict kvs) = (kvs \<noteq> [])"

section \<open>Format tables and the format tests\<close>

text \<open>\<^verbatim>\<open>INKSCAPE_FORMATS\<close> and \<^verbatim>\<open>PIL_FORMATS\<close> of the module.\<close>

definition INKSCAPE_FORMATS :: "string list" where
  "INKSCAPE_FORMATS = [''png'', ''pdf'', ''ps'', ''eps'']"

definition PIL_FORMATS :: "string list" where
  "PIL_FORMATS = [''jpeg'', ''jpg'', ''bmp'', ''gif'', ''im'', ''pcx'', ''tiff'']"

text \<open>The loop shared by \<^verbatim>\<open>_is_inkscape_format\<close> and \<^verbatim>\<open>_is_pillow_format\<close>:
  \<^verbatim>\<open>for frm in FORMATS: if in_form.lower() == frm.lower(): return True\<close>, then
  \<^verbatim>\<open>return False\<close>.\<close>

fun format_in :: "string \<Rightarrow> string list \<Rightarrow> bool" where
  "format_in in_form [] = False"
| "format_in in_form (frm # frms) =
     (if py_lower in_form = py_lower frm then True else format_in in_form frms)"

definition is_inkscape_format :: "string \<Rightarrow> bool" where
  "is_inkscape_format in_form = format_in in_form INKSCAPE_FORMATS"

definition is_pillow_format :: "string \<Rightarrow> bool" where
  "is_pillow_format in_form = format_in in_form PIL_FORMATS"

text \<open>The routing decision of \<^verbatim>\<open>_convert_via_inkscape\<close>: its
  \<^verbatim>\<open>if _is_inkscape_format(..) / elif _is_pillow_format(..) / else\<close>.\<close>

datatype format_class = Native | Relay | Unsupported

definition classify :: "string \<Rightarrow> format_class" where
  "classify file_format =
     (if is_inkscape_format file_format then Native
      else if is_pillow_format file_format then Relay
      else Unsupported)"

section \<open>Converting values to text\<close>

text \<open>\<^verbatim>\<open>str\<close> of an integer: its decimal digits, with a minus sign when negative.\<close>

fun nat_str :: "nat \<Rightarrow> string" where
  "nat_str n =
     (if n < 10 then [char_of (48 + n)]
      else nat_str (n div 10) @ [char_of (48 + n mod 10)])"

declare nat_str.simps [simp del]

definition int_str :: "int \<Rightarrow> string" where
  "int_str i = (if i < 0 then CHR ''-'' # nat_str (nat (- i)) else nat_str (nat i))"

text \<open>\<^verbatim>\<open>repr\<close> of a string: single quotes unless the string holds a single quote and
  no double quote; backslash, the quote, tab, newline and carriage return are escaped, the
  other unprintable code points are written \<^verbatim>\<open>\xhh\<close>.\<close>

definition backslash :: char where
  "backslash = CHR 0x5C"

definition hex_digit :: "nat \<Rightarrow> char" where
  "hex_digit d = (if d < 10 then char_of (48 + d) else char_of (87 + d))"

definition repr_char :: "char \<Rightarrow> char \<Rightarrow> string" where
  "repr_char q c =
     (let n = (of_char c :: nat)
      in if c = backslash then [backslash, backslash]
         else if c = q then [backslash, q]
         else if n = 9 then [backslash, CHR ''t'']
         else if n = 10 then [backslash, CHR ''n'']
         else if n = 13 then [backslash, CHR ''r'']
         else if n < 32 \<or> (127 \<le> n \<and> n \<le> 160) \<or> n = 173
         then [backslash, CHR ''x'', hex_digit (n div 16), hex_digit (n mod 16)]
         else [c])"

definition str_repr :: "string \<Rightarrow> string" where
  "str_repr s =
     (let q = (if CHR 0x27 \<in> set s \<and> CHR 0x22 \<notin> set s then CHR 0x22 else CHR 0x27)
      in q # concat (map (repr_char q) s) @ [q])"

text \<open>\<^verbatim>\<open>sep.join(parts)\<close>.\<close>

fun join :: "string \<Rightarrow> string list \<Rightarrow> string" where
  "join s [] = []"
| "join s [x] = x"
| "join s (x # y # ys) = x @ s @ join s (y # ys)"

fun py_repr :: "pyval \<Rightarrow> string" where
  "py_repr PNone = ''None''"
| "py_repr (PBool b) = (if b then ''True'' else ''False'')"
| "py_repr (PInt i) = int_str i"
| "py_repr (PStr s) = str_repr s"
| "py_repr (PList xs) = ''['' @ join '', '' (map py_repr xs) @ '']''"
| "py_repr (PDict kvs) =
     ''{'' @ join '', '' (map (\<lambda>kv. str_repr (fst kv) @ '': '' @ py_repr (snd kv)) kvs) @ ''}''"

text \<open>\<^verbatim>\<open>str(x)\<close>: a string is itself, everything else is its \<^verbatim>\<open>repr\<close>.\<close>

fun py_str :: "pyval \<Rightarrow> string" where
  "py_str (PStr s) = s"
| "py_str v = py_repr v"

text \<open>Subscription \<^verbatim>\<open>x[i]\<close> with a literal index 0 or 1: a list or a string gives its
  element or \<^verbatim>\<open>IndexError\<close>; a dictionary loaded from JSON has string keys only, so an
  integer key is a \<^verbatim>\<open>KeyError\<close>; the other values are not subscriptable.\<close>

fun py_index :: "pyval \<Rightarrow> nat \<Rightarrow> error + pyval" where
  "py_index (PList xs) i = (if i < length xs then Inr (xs ! i) else Inl IndexError)"
| "py_index (PStr s) i = (if i < length s then Inr (PStr [s ! i]) else Inl IndexError)"
| "py_index (PDict kvs) i = Inl KeyError"
| "py_index v i = Inl TypeError"

text \<open>\<^verbatim>\<open>s.split(",")\<close>: the pieces between the separators, at least one piece.\<close>

fun py_split :: "char \<Rightarrow> string \<Rightarrow> string list" where
  "py_split d [] = [[]]"
| "py_split d (c # cs) =
     (if c = d then [] # py_split d cs
      else (case py_split d cs of [] \<Rightarrow> [[c]] | t # ts \<Rightarrow> (c # t) # ts))"

text \<open>\<^verbatim>\<open>s.split(sub)[0]\<close>: the part of s before the first occurrence of sub, all of s
  when there is none.\<close>

fun split_first :: "string \<Rightarrow> string \<Rightarrow> string" where
  "split_first sub [] = []"
| "split_first sub (c # cs) = (if prefix sub (c # cs) then [] else c # split_first sub cs)"

section \<open>The environment and the observable world\<close>

text \<open>
  What the program reads from its surroundings is a parameter of the model
  (\<open>env\<close>): the operating system's name and path separator, the temporary
  directory, which paths are directories, the listing of a directory, what
  \<^verbatim>\<open>json.load\<close> returns for a file (\<open>None\<close> when it raises
  \<^verbatim>\<open>JSONDecodeError\<close>), what running a command does to the files (\<open>Inl\<close> when
  \<^verbatim>\<open>subprocess.run\<close> cannot start the process; the exit status of a started
  process is never read by the program), whether Pillow can be imported, and what
  \<^verbatim>\<open>Image.open(..).save(out)\<close> does to the files and whether it raises.
  What the program changes is the \<open>world\<close>: the set of paths at which a file
  exists, the lines printed, and the commands that were started.
  A rules document is a JSON object whose values are JSON objects; a block is one such
  inner object.
\<close>

type_synonym block = "string \<rightharpoonup> pyval"

type_synonym rules = "string \<rightharpoonup> block"

record env =
  os_name :: string
  os_sep :: string
  tempdir :: string
  isdir :: "string \<Rightarrow> bool"
  listdir :: "string \<Rightarrow> string list"
  json_load :: "string \<Rightarrow> rules option"
  subprocess_run :: "string list \<Rightarrow> string set \<Rightarrow> error + string set"
  pil_installed :: bool
  pil_save :: "string \<Rightarrow> string \<Rightarrow> string set \<Rightarrow> error option \<times> string set"

record world =
  files :: "string set"
  stdout :: "string list"
  invoked :: "string list list"

text \<open>Sequencing: an exception of the first step ends the computation.\<close>

definition and_then ::
  "(error + 'a) \<times> world \<Rightarrow> ('a \<Rightarrow> world \<Rightarrow> (error + 'b) \<times> world) \<Rightarrow> (error + 'b) \<times> world" where
  "and_then r f = (case r of (Inl e, w) \<Rightarrow> (Inl e, w) | (Inr a, w) \<Rightarrow> f a w)"

section \<open>Helpers of the module\<close>

text \<open>\<^verbatim>\<open>_report_error(exception, error_desc)\<close>: prints the description and calls
  \<^verbatim>\<open>sys.exit(1)\<close>; its first argument is not used.\<close>

definition report_error :: "string \<Rightarrow> world \<Rightarrow> (error + 'a) \<times> world" where
  "report_error error_desc w =
     (Inl (SystemExit (Some 1)), w\<lparr>stdout := stdout w @ [error_desc]\<rparr>)"

text \<open>\<^verbatim>\<open>_report_status(status)\<close>.\<close>

definition report_status :: "string \<Rightarrow> world \<Rightarrow> (error + unit) \<times> world" where
  "report_status status w = (Inr (), w\<lparr>stdout := stdout w @ [status]\<rparr>)"

text \<open>\<^verbatim>\<open>_run_command(cmd)\<close>: \<^verbatim>\<open>subprocess.run(cmd, stdout=PIPE, stderr=PIPE)\<close>, result
  dropped.\<close>

definition run_command :: "env \<Rightarrow> string list \<Rightarrow> world \<Rightarrow> (error + unit) \<times> world" where
  "run_command env cmd w =
     (case subprocess_run env cmd (files w) of
        Inl e \<Rightarrow> (Inl e, w)
      | Inr fs \<Rightarrow> (Inr (), w\<lparr>files := fs, invoked := invoked w @ [cmd]\<rparr>))"

text \<open>\<^verbatim>\<open>_resolve_dir\<close> and \<^verbatim>\<open>_resolve_path\<close>; the \<^verbatim>\<open>return False\<close> after
  \<^verbatim>\<open>_report_error\<close> is never reached.\<close>

definition resolve_dir :: "env \<Rightarrow> string \<Rightarrow> world \<Rightarrow> (error + bool) \<times> world" where
  "resolve_dir env dirpath w =
     (if \<not> isdir env dirpath then report_error (dirpath @ '' is not a valid directory!'') w
      else (Inr True, w))"

definition resolve_path :: "string \<Rightarrow> world \<Rightarrow> (error + bool) \<times> world" where
  "resolve_path filepath w =
     (if filepath \<notin> files w then report_error (filepath @ '' is not a valid file path!'') w
      else (Inr True, w))"

text \<open>\<^verbatim>\<open>_get_inkscape_path()\<close>.\<close>

definition get_inkscape_path :: "env \<Rightarrow> world \<Rightarrow> (error + string) \<times> world" where
  "get_inkscape_path env w =
     and_then
       (if os_name env = ''nt'' then
          (let path = ''C:'' @ [backslash] @ ''Program Files'' @ [backslash] @ ''Inkscape''
                        @ [backslash] @ ''inkscape.exe''
           in if path \<notin> files w then
                (let path = ''C:'' @ [backslash] @ ''Program Files (x86)'' @ [backslash]
                              @ ''Inkscape'' @ [backslash] @ ''inkscape.exe''
                 in if path \<notin> files w then report_error ''Inkscape installation not found!'' w
                    else (Inr path, w))
              else (Inr path, w))
        else
          (let path = ''/Applications/Inkscape.app'' @ ''/Contents/Resources/bin/inkscape-bin''
           in if path \<notin> files w then
                (let path = ''/usr/bin/inkscape''
                 in if path \<notin> files w then report_error ''No Inkscape installation found!'' w
                    else (Inr path, w))
              else (Inr path, w)))
       (\<lambda>path w. and_then (report_status (''Inkscape installation found ... '' @ path) w)
          (\<lambda>_ w. (Inr path, w)))"

text \<open>\<^verbatim>\<open>_build_svg_filenames(dirpath)\<close>.\<close>

definition build_svg_filenames :: "env \<Rightarrow> string \<Rightarrow> world \<Rightarrow> (error + string list) \<times> world" where
  "build_svg_filenames env dirpath w =
     (let svg_file_names =
            map (split_first ''.svg'') (filter (suffix ''.svg'') (listdir env dirpath));
          no_of_svg_files = length svg_file_names
      in if no_of_svg_files = 0 then report_error (''No SVG file found in '' @ dirpath) w
         else and_then (report_status (int_str (int no_of_svg_files) @ '' SVG files found'') w)
                (\<lambda>_ w. (Inr svg_file_names, w)))"

text \<open>\<^verbatim>\<open>_build_data_from_json(json_filename)\<close>.\<close>

definition build_data_from_json :: "env \<Rightarrow> string \<Rightarrow> world \<Rightarrow> (error + rules) \<times> world" where
  "build_data_from_json env json_filename w =
     and_then (resolve_path json_filename w)
       (\<lambda>ok w.
          if ok then
            (case json_load env json_filename of
               Some json_data \<Rightarrow> (Inr json_data, w)
             | None \<Rightarrow> report_error (json_filename @ '' is not a valid JSON file format!'') w)
          else report_error (json_filename @ '' is not a valid file!'') w)"

section \<open>Converting one file\<close>

text \<open>The size arguments of \<^verbatim>\<open>_convert_via_inkscape\<close>:
  \<^verbatim>\<open>if size: cmd = cmd + ["-w", str(size[0]), "-h", str(size[1])]\<close>.\<close>

definition size_args :: "pyval \<Rightarrow> error + string list" where
  "size_args sz =
     (if truthy sz then
        (case py_index sz 0 of
           Inl e \<Rightarrow> Inl e
         | Inr width \<Rightarrow>
             (case py_index sz 1 of
                Inl e \<Rightarrow> Inl e
              | Inr height \<Rightarrow> Inr [''-w'', py_str width, ''-h'', py_str height]))
      else Inr [])"

text \<open>The first lines of \<^verbatim>\<open>_convert_via_inkscape\<close>: the command up to the crop flag.\<close>

definition base_cmd :: "string \<Rightarrow> string \<Rightarrow> pyval \<Rightarrow> string list" where
  "base_cmd inkscape_path src_svg_path drawing_only =
     (let cmd = [inkscape_path, ''-f'', src_svg_path]
      in if truthy drawing_only then cmd @ [''--export-area-drawing'']
         else cmd @ [''--export-area-page''])"

text \<open>The command of the native branch (the \<^verbatim>\<open>if/elif\<close> chain on
  \<^verbatim>\<open>file_format == "png"\<close>, \<^verbatim>\<open>"pdf"\<close>, \<^verbatim>\<open>"ps"\<close>, \<^verbatim>\<open>"eps"\<close>, which has no
  \<^verbatim>\<open>else\<close>).\<close>

definition native_cmd ::
  "string \<Rightarrow> string \<Rightarrow> string \<Rightarrow> string \<Rightarrow> pyval \<Rightarrow> pyval \<Rightarrow> error + string list" where
  "native_cmd inkscape_path src_svg_path out_img_path file_format sz drawing_only =
     (let cmd = base_cmd inkscape_path src_svg_path drawing_only
      in if file_format = ''png'' then
           (case size_args sz of
              Inl e \<Rightarrow> Inl e
            | Inr sa \<Rightarrow> Inr ((cmd @ [''--export-png='' @ out_img_path]) @ sa))
         else if file_format = ''pdf'' then Inr (cmd @ [''--export-pdf='' @ out_img_path])
         else if file_format = ''ps'' then Inr (cmd @ [''--export-ps='' @ out_img_path])
         else if file_format = ''eps'' then Inr (cmd @ [''--export-eps='' @ out_img_path])
         else Inr cmd)"

text \<open>The temporary file and the command of the relay branch.\<close>

definition tempf_path :: "env \<Rightarrow> string" where
  "tempf_path env = tempdir env @ os_sep env @ ''mJaAjM.png''"

definition relay_cmd :: "env \<Rightarrow> string \<Rightarrow> string \<Rightarrow> pyval \<Rightarrow> pyval \<Rightarrow> error + string list" where
  "relay_cmd env inkscape_path src_svg_path sz drawing_only =
     (let cmd = base_cmd inkscape_path src_svg_path drawing_only @ [''--export-png='' @ tempf_path env]
      in case size_args sz of
           Inl e \<Rightarrow> Inl e
         | Inr sa \<Rightarrow> Inr (cmd @ sa))"

text \<open>The \<^verbatim>\<open>try\<close> block of the relay branch with its \<^verbatim>\<open>except ImportError\<close>:
  importing Pillow, opening the temporary file, \<^verbatim>\<open>Image.open\<close> and \<^verbatim>\<open>im.save\<close>.\<close>

definition relay_try :: "env \<Rightarrow> string \<Rightarrow> string \<Rightarrow> world \<Rightarrow> (error + unit) \<times> world" where
  "relay_try env tmp out_img_path w =
     (case (if \<not> pil_installed env then (Inl ImportError, w)
            else if tmp \<notin> files w then (Inl FileNotFoundError, w)
            else (case pil_save env tmp out_img_path (files w) of
                    (None, fs) \<Rightarrow> (Inr (), w\<lparr>files := fs\<rparr>)
                  | (Some e, fs) \<Rightarrow> (Inl e, w\<lparr>files := fs\<rparr>))) of
        (Inl e, w') \<Rightarrow>
          if e = ImportError then report_error ''Python3 Pillow library not found!'' w'
          else (Inl e, w')
      | (Inr u, w') \<Rightarrow> (Inr u, w'))"

text \<open>The \<^verbatim>\<open>finally: os.remove(tempf_path)\<close>: it runs whatever the \<^verbatim>\<open>try\<close> block
  did; when it raises itself, its exception is the one that goes on.\<close>

definition remove_finally :: "string \<Rightarrow> (error + unit) \<times> world \<Rightarrow> (error + unit) \<times> world" where
  "remove_finally tmp r =
     (case r of
        (res, w) \<Rightarrow>
          if tmp \<in> files w then (res, w\<lparr>files := files w - {tmp}\<rparr>)
          else (Inl FileNotFoundError, w))"

text \<open>\<^verbatim>\<open>_convert_via_inkscape(inkscape_path, src_svg_path, out_img_path, file_format,
  size, drawing_only)\<close>.\<close>

definition convert_via_inkscape ::
  "env \<Rightarrow> string \<Rightarrow> string \<Rightarrow> string \<Rightarrow> string \<Rightarrow> pyval \<Rightarrow> pyval \<Rightarrow> world
     \<Rightarrow> (error + unit) \<times> world" where
  "convert_via_inkscape env inkscape_path src_svg_path out_img_path file_format sz drawing_only w =
     (if is_inkscape_format file_format then
        (case native_cmd inkscape_path src_svg_path out_img_path file_format sz drawing_only of
           Inl e \<Rightarrow> (Inl e, w)
         | Inr cmd \<Rightarrow> run_command env cmd w)
      else if is_pillow_format file_format then
        (case relay_cmd env inkscape_path src_svg_path sz drawing_only of
           Inl e \<Rightarrow> (Inl e, w)
         | Inr cmd \<Rightarrow>
             (case run_command env cmd w of
                (Inl e, w') \<Rightarrow> (Inl e, w')
              | (Inr u, w') \<Rightarrow>
                  remove_finally (tempf_path env)
                    (relay_try env (tempf_path env) out_img_path w')))
      else report_error (''Unsupported file format to export: '' @ file_format) w)"

section \<open>Resolving the parameters of a file\<close>

text \<open>\<^verbatim>\<open>def_param\<close> and \<^verbatim>\<open>params\<close> of \<^verbatim>\<open>export_svg\<close>.\<close>

definition def_param :: block where
  "def_param = [''size'' \<mapsto> PNone, ''format'' \<mapsto> PStr ''png'', ''drawing_only'' \<mapsto> PBool True]"

definition params :: "string list" where
  "params = [''size'', ''format'', ''drawing_only'']"

text \<open>\<^verbatim>\<open>curated_param(data)\<close>. The Python function overwrites the entry of the
  dictionary it is given and returns that same dictionary; its callers here store the
  result back at the key the block was read from.\<close>

definition curated_param :: "block \<Rightarrow> block" where
  "curated_param data =
     (if data ''size'' \<noteq> None then
        (if data ''size'' = Some (PStr ''default'') then data(''size'' \<mapsto> PNone) else data)
      else data)"

text \<open>The inner loop \<^verbatim>\<open>for block in param_blocks: if param in block:
  final_param[param] = block[param]; break\<close>.\<close>

fun scan_blocks :: "string \<Rightarrow> block list \<Rightarrow> block \<Rightarrow> block" where
  "scan_blocks param [] final_param = final_param"
| "scan_blocks param (blk # blks) final_param =
     (case blk param of
        Some v \<Rightarrow> final_param(param \<mapsto> v)
      | None \<Rightarrow> scan_blocks param blks final_param)"

text \<open>The outer loop \<^verbatim>\<open>for param in params\<close>.\<close>

fun scan_params :: "string list \<Rightarrow> block list \<Rightarrow> block \<Rightarrow> block" where
  "scan_params [] param_blocks final_param = final_param"
| "scan_params (param # ps) param_blocks final_param =
     scan_params ps param_blocks (scan_blocks param param_blocks final_param)"

text \<open>The supplied block of \<^verbatim>\<open>export_svg\<close>, from its three optional arguments.\<close>

definition supplied_params :: "pyval \<Rightarrow> pyval \<Rightarrow> pyval \<Rightarrow> block" where
  "supplied_params file_format sz drawing_only =
     (let supplied_param = Map.empty;
          supplied_param = (if sz \<noteq> PNone then supplied_param(''size'' \<mapsto> sz)
                            else supplied_param);
          supplied_param = (if file_format \<noteq> PNone then supplied_param(''format'' \<mapsto> file_format)
                            else supplied_param);
          supplied_param = (if drawing_only \<noteq> PNone
                            then supplied_param(''drawing_only'' \<mapsto> drawing_only)
                            else supplied_param)
      in supplied_param)"

text \<open>The rule store during the batch is \<^verbatim>\<open>rule_data\<close>. \<^verbatim>\<open>global_param\<close> is the
  dictionary stored at \<^verbatim>\<open>"_globalrule_"\<close> (the same object, so it is read through the
  store), or an empty dictionary when there is no such key.\<close>

definition global_param :: "rules \<Rightarrow> block" where
  "global_param rule_data =
     (case rule_data ''_globalrule_'' of Some blk \<Rightarrow> blk | None \<Rightarrow> Map.empty)"

text \<open>\<^verbatim>\<open>if key in rule_data: .. = curated_param(rule_data[key])\<close>: the effect on the
  store.\<close>

definition curate_at :: "string \<Rightarrow> rules \<Rightarrow> rules" where
  "curate_at key rule_data =
     (case rule_data key of
        Some blk \<Rightarrow> rule_data(key \<mapsto> curated_param blk)
      | None \<Rightarrow> rule_data)"

text \<open>\<^verbatim>\<open>local_param\<close> after that step: the block stored for the file, or the empty
  dictionary.\<close>

definition local_param :: "rules \<Rightarrow> string \<Rightarrow> block" where
  "local_param rule_data svg_file =
     (case rule_data svg_file of Some blk \<Rightarrow> blk | None \<Rightarrow> Map.empty)"

text \<open>\<^verbatim>\<open>final_param\<close> of one pass of the file loop, from the store as it is when the
  pass begins.\<close>

definition final_params :: "rules \<Rightarrow> block \<Rightarrow> string \<Rightarrow> block" where
  "final_params rule_data supplied_param svg_file =
     (let rule_data' = curate_at svg_file rule_data
      in scan_params params
           [local_param rule_data' svg_file, supplied_param, global_param rule_data', def_param]
           Map.empty)"

section \<open>The batch\<close>

text \<open>One pass of the loop \<^verbatim>\<open>for svg_file in svg_files\<close> of \<^verbatim>\<open>export_svg\<close>. The
  rule store is returned with the result, since \<^verbatim>\<open>curated_param\<close> may have written to
  it. The arguments of the call are evaluated in order: the output path reads
  \<^verbatim>\<open>final_param["format"]\<close> and concatenates it to a string.\<close>

definition process_file ::
  "env \<Rightarrow> string \<Rightarrow> string \<Rightarrow> string \<Rightarrow> block \<Rightarrow> string \<Rightarrow> rules \<Rightarrow> world
     \<Rightarrow> (error + unit) \<times> rules \<times> world" where
  "process_file env inkscape_path src_dir out_dir supplied_param svg_file rule_data w =
     (let final_param = final_params rule_data supplied_param svg_file;
          rule_data' = curate_at svg_file rule_data
      in case final_param ''format'' of
           None \<Rightarrow> (Inl KeyError, rule_data', w)
         | Some (PStr fmt) \<Rightarrow>
             (case final_param ''size'' of
                None \<Rightarrow> (Inl KeyError, rule_data', w)
              | Some sz \<Rightarrow>
                  (case final_param ''drawing_only'' of
                     None \<Rightarrow> (Inl KeyError, rule_data', w)
                   | Some drawing_only \<Rightarrow>
                       (case and_then
                               (convert_via_inkscape env inkscape_path
                                  (src_dir @ os_sep env @ svg_file @ ''.svg'')
                                  (out_dir @ os_sep env @ svg_file @ ''.'' @ fmt)
                                  fmt sz drawing_only w)
                               (\<lambda>_ w. report_status (''Saved '' @ svg_file @ ''.'' @ fmt) w) of
                          (res, w') \<Rightarrow> (res, rule_data', w'))))
         | Some _ \<Rightarrow> (Inl TypeError, rule_data', w))"

text \<open>The loop itself: an exception of one pass ends it.\<close>

fun export_loop ::
  "env \<Rightarrow> string \<Rightarrow> string \<Rightarrow> string \<Rightarrow> block \<Rightarrow> string list \<Rightarrow> rules \<Rightarrow> world
     \<Rightarrow> (error + unit) \<times> rules \<times> world" where
  "export_loop env inkscape_path src_dir out_dir supplied_param [] rule_data w =
     (Inr (), rule_data, w)"
| "export_loop env inkscape_path src_dir out_dir supplied_param (svg_file # svg_files) rule_data w =
     (case process_file env inkscape_path src_dir out_dir supplied_param svg_file rule_data w of
        (Inl e, rule_data', w') \<Rightarrow> (Inl e, rule_data', w')
      | (Inr u, rule_data', w') \<Rightarrow>
          export_loop env inkscape_path src_dir out_dir supplied_param svg_files rule_data' w')"

text \<open>\<^verbatim>\<open>export_svg(src_dir, out_dir, json_rules_file, file_format, size, drawing_only,
  inkscape_path)\<close>. An argument left at \<^verbatim>\<open>None\<close> is \<open>None\<close> for the rules file and
  \<open>PNone\<close> for the three overrides. Without a rules file \<^verbatim>\<open>rule_data\<close> stays the empty
  list, in which no key is found: the empty store.\<close>

definition export_svg ::
  "env \<Rightarrow> string \<Rightarrow> string \<Rightarrow> string option \<Rightarrow> pyval \<Rightarrow> pyval \<Rightarrow> pyval \<Rightarrow> string \<Rightarrow> world
     \<Rightarrow> (error + unit) \<times> world" where
  "export_svg env src_dir out_dir json_rules_file file_format sz drawing_only inkscape_path w =
     and_then (resolve_dir env src_dir w) (\<lambda>_ w.
     and_then (resolve_dir env out_dir w) (\<lambda>_ w.
     and_then (case json_rules_file of
                 None \<Rightarrow> (Inr True, w)
               | Some f \<Rightarrow> if f \<noteq> [] then resolve_path f w else (Inr True, w)) (\<lambda>_ w.
     and_then (if inkscape_path = ''default'' then get_inkscape_path env w
               else and_then (resolve_path inkscape_path w) (\<lambda>_ w. (Inr inkscape_path, w)))
       (\<lambda>inkscape_path w.
     and_then (build_svg_filenames env src_dir w) (\<lambda>svg_files w.
     and_then (case json_rules_file of
                 None \<Rightarrow> (Inr Map.empty, w)
               | Some f \<Rightarrow> build_data_from_json env f w) (\<lambda>rule_data w.
     (let rule_data = curate_at ''_globalrule_'' rule_data;
          supplied_param = supplied_params file_format sz drawing_only
      in case export_loop env inkscape_path src_dir out_dir supplied_param svg_files rule_data w of
           (Inl e, rule_data', w') \<Rightarrow> (Inl e, w')
         | (Inr u, rule_data', w') \<Rightarrow> report_status ''Done'' w')))))))"

section \<open>The command line\<close>

text \<open>The parsed arguments (\<^verbatim>\<open>argparse\<close> itself is not modelled): the two
  positional directories and the five options, each \<open>None\<close> when not given.\<close>

record args =
  args_srcdir :: string
  args_outdir :: string
  args_rules :: "string option"
  args_size :: "string option"
  args_format :: "string option"
  args_drawing_only :: "string option"
  args_inkscape :: "string option"

text \<open>The \<^verbatim>\<open>--drawing_only\<close> part of the main block: \<^verbatim>\<open>f_drawing_only = True\<close>, then
  \<^verbatim>\<open>if args.drawing_only:\<close> the token test, which ends in \<^verbatim>\<open>print(..)\<close> and
  \<^verbatim>\<open>sys.exit()\<close>.\<close>

definition main_drawing_only :: "string option \<Rightarrow> world \<Rightarrow> (error + bool) \<times> world" where
  "main_drawing_only a w =
     (case a of
        None \<Rightarrow> (Inr True, w)
      | Some s \<Rightarrow>
          if s \<noteq> [] then
            (let draw = py_lower s
             in if draw = ''y'' \<or> draw = ''yes'' then (Inr True, w)
                else if draw = ''n'' \<or> draw = ''no'' then (Inr False, w)
                else (Inl (SystemExit None),
                      w\<lparr>stdout := stdout w @
                          [''Wrong argument supplied for --drawing_only parameter! '' @ [CHR 0x0A]
                           @ ''Use --help or -h to get help'']\<rparr>))
          else (Inr True, w))"

text \<open>The \<^verbatim>\<open>--size\<close> part: \<^verbatim>\<open>image_size = None\<close>, then \<^verbatim>\<open>if args.size:\<close> the
  split and the length test.\<close>

definition main_size :: "string option \<Rightarrow> world \<Rightarrow> (error + pyval) \<times> world" where
  "main_size a w =
     (case a of
        None \<Rightarrow> (Inr PNone, w)
      | Some s \<Rightarrow>
          if s \<noteq> [] then
            (let image_size = py_split (CHR '','') s
             in if length image_size \<noteq> 2 then
                  (Inl (SystemExit None),
                   w\<lparr>stdout := stdout w @
                       [''Wrong argument supplied for --size parameter! '' @ [CHR 0x0A]
                        @ ''Use --help or -h to get help'']\<rparr>)
                else (Inr (PList (map PStr image_size)), w))
          else (Inr PNone, w))"

text \<open>The main block.\<close>

definition main :: "env \<Rightarrow> args \<Rightarrow> world \<Rightarrow> (error + unit) \<times> world" where
  "main env a w =
     and_then (main_drawing_only (args_drawing_only a) w) (\<lambda>f_drawing_only w.
     and_then (main_size (args_size a) w) (\<lambda>image_size w.
       export_svg env (args_srcdir a) (args_outdir a) (args_rules a)
         (case args_format a of None \<Rightarrow> PNone | Some f \<Rightarrow> PStr f)
         image_size (PBool f_drawing_only)
         (case args_inkscape a of
            None \<Rightarrow> ''default''
          | Some i \<Rightarrow> if i \<noteq> [] then i else ''default'')
         w))"

section \<open>A sample run\<close>

text \<open>A small concrete surrounding, used to run the model: a POSIX system with the
  renderer at \<^verbatim>\<open>/usr/bin/inkscape\<close>, a source directory \<^verbatim>\<open>src\<close> holding
  \<^verbatim>\<open>a.svg\<close> and \<^verbatim>\<open>b.svg\<close>, an output directory \<^verbatim>\<open>out\<close>, and a rules file
  \<^verbatim>\<open>rules.json\<close> that asks for the format \<^verbatim>\<open>xyz\<close> for \<^verbatim>\<open>a\<close>. The renderer
  writes the file named by its \<^verbatim>\<open>--export-png=\<close> argument; Pillow is installed and
  saving writes the output file.\<close>

definition sample_rules :: rules where
  "sample_rules = [''a'' \<mapsto> [''format'' \<mapsto> PStr ''xyz'']]"

definition sample_env :: env where
  "sample_env =
     \<lparr>os_name = ''posix'', os_sep = ''/'', tempdir = ''/tmp'',
      isdir = (\<lambda>d. d = ''src'' \<or> d = ''out''),
      listdir = (\<lambda>d. if d = ''src'' then [''a.svg'', ''b.svg''] else []),
      json_load = (\<lambda>f. if f = ''rules.json'' then Some sample_rules else None),
      subprocess_run =
        (\<lambda>cmd fs. Inr (fs \<union> set (map (drop 13) (filter (prefix ''--export-png='') cmd)))),
      pil_installed = True,
      pil_save = (\<lambda>tmp out fs. (None, insert out fs))\<rparr>"

definition sample_world :: world where
  "sample_world = \<lparr>files = {''/usr/bin/inkscape'', ''rules.json''}, stdout = [], invoked = []\<rparr>"

text \<open>Two rule documents for the file \<^verbatim>\<open>gauge\<close>, with a global size of 300 by 300: in
  the first the block of \<^verbatim>\<open>gauge\<close> has the size \<^verbatim>\<open>"default"\<close>, in the second it has
  no size.\<close>

definition rules_default_size :: rules where
  "rules_default_size =
     [''_globalrule_'' \<mapsto> [''size'' \<mapsto> PList [PInt 300, PInt 300]],
      ''gauge'' \<mapsto> [''size'' \<mapsto> PStr ''default'']]"

definition rules_no_size :: rules where
  "rules_no_size =
     [''_globalrule_'' \<mapsto> [''size'' \<mapsto> PList [PInt 300, PInt 300]],
      ''gauge'' \<mapsto> Map.empty]"

section \<open>Properties of the format tests\<close>

lemma lower_char_idem: "lower_char (lower_char c) = lower_char c"
proof -
  have "of_char c < (256::nat)" by simp
  then show ?thesis
    by (auto simp: lower_char_def Let_def)
qed

lemma py_lower_idem: "py_lower (py_lower s) = py_lower s"
  by (simp add: py_lower_def lower_char_idem)

lemma format_in_lower: "format_in (py_lower f) frms = format_in f frms"
  by (induction frms) (simp_all add: py_lower_idem)

lemma lower_formats:
  "map py_lower INKSCAPE_FORMATS = INKSCAPE_FORMATS"
  "map py_lower PIL_FORMATS = PIL_FORMATS"
  by (simp_all add: INKSCAPE_FORMATS_def PIL_FORMATS_def py_lower_def lower_char_def)

lemma format_in_set: "format_in f frms \<longleftrightarrow> py_lower f \<in> set (map py_lower frms)"
  by (induction frms) auto

lemma is_inkscape_format_iff:
  "is_inkscape_format f \<longleftrightarrow> py_lower f \<in> set INKSCAPE_FORMATS"
  by (simp add: is_inkscape_format_def format_in_set lower_formats)

lemma is_pillow_format_iff:
  "is_pillow_format f \<longleftrightarrow> py_lower f \<in> set PIL_FORMATS"
  by (simp add: is_pillow_format_def format_in_set lower_formats)

lemma formats_disjoint: "set INKSCAPE_FORMATS \<inter> set PIL_FORMATS = {}"
  by (simp add: INKSCAPE_FORMATS_def PIL_FORMATS_def)

lemma not_both_formats: "\<not> (is_inkscape_format f \<and> is_pillow_format f)"
  using formats_disjoint by (auto simp: is_inkscape_format_iff is_pillow_format_iff)

lemma classify_lower: "classify (py_lower f) = classify f"
  by (simp add: classify_def is_inkscape_format_def is_pillow_format_def format_in_lower)

text \<open>
  Claim C7. The routing decision is a total function into the three classes, the two
  format tests it is built from never both hold, so each string falls in exactly one
  class, and a string is classified like its lowercase form.
\<close>

theorem classify_total_exclusive_case_insensitive:
  "classify f = classify (py_lower f)
   \<and> (classify f = Native \<or> classify f = Relay \<or> classify f = Unsupported)
   \<and> \<not> (is_inkscape_format f \<and> is_pillow_format f)
   \<and> (classify f = Native \<longleftrightarrow> is_inkscape_format f)
   \<and> (classify f = Relay \<longleftrightarrow> is_pillow_format f)
   \<and> (classify f = Unsupported \<longleftrightarrow> \<not> is_inkscape_format f \<and> \<not> is_pillow_format f)"
proof -
  have "classify f = classify (py_lower f)"
    by (simp only: classify_lower)
  moreover have "classify f = Native \<or> classify f = Relay \<or> classify f = Unsupported"
    by (cases "classify f") simp_all
  moreover note not_both_formats [of f]
  moreover have "classify f = Native \<longleftrightarrow> is_inkscape_format f"
    by (simp add: classify_def)
  moreover have "classify f = Relay \<longleftrightarrow> is_pillow_format f"
    using not_both_formats [of f] by (auto simp: classify_def)
  moreover have "classify f = Unsupported \<longleftrightarrow> \<not> is_inkscape_format f \<and> \<not> is_pillow_format f"
    by (simp add: classify_def)
  ultimately show ?thesis by blast
qed

section \<open>Properties of the parameter resolution\<close>

lemma scan_blocks4:
  "scan_blocks p [l, s, g, d] fin q =
     (if q = p then
        (case l p of Some v \<Rightarrow> Some v | None \<Rightarrow>
          (case s p of Some v \<Rightarrow> Some v | None \<Rightarrow>
            (case g p of Some v \<Rightarrow> Some v | None \<Rightarrow>
              (case d p of Some v \<Rightarrow> Some v | None \<Rightarrow> fin p))))
      else fin q)"
  by (simp split: option.splits)

lemma scan_params_apply:
  "scan_params params [l, s, g, d] Map.empty q =
     (if q \<in> set params then
        (case l q of Some v \<Rightarrow> Some v | None \<Rightarrow>
          (case s q of Some v \<Rightarrow> Some v | None \<Rightarrow>
            (case g q of Some v \<Rightarrow> Some v | None \<Rightarrow> d q)))
      else None)"
proof -
  consider "q = ''size''" | "q = ''format''" | "q = ''drawing_only''" | "q \<notin> set params"
    by (auto simp: params_def)
  then show ?thesis
  proof cases
    case 1
    then show ?thesis
      by (simp add: params_def scan_blocks4 del: scan_blocks.simps split: option.splits)
  next
    case 2
    then show ?thesis
      by (simp add: params_def scan_blocks4 del: scan_blocks.simps split: option.splits)
  next
    case 3
    then show ?thesis
      by (simp add: params_def scan_blocks4 del: scan_blocks.simps split: option.splits)
  next
    case 4
    then show ?thesis
      by (simp add: params_def scan_blocks4 del: scan_blocks.simps)
  qed
qed

lemma final_params_apply:
  "final_params rule_data supplied svg_file q =
     (if q \<in> set params then
        (case local_param (curate_at svg_file rule_data) svg_file q of Some v \<Rightarrow> Some v | None \<Rightarrow>
          (case supplied q of Some v \<Rightarrow> Some v | None \<Rightarrow>
            (case global_param (curate_at svg_file rule_data) q of Some v \<Rightarrow> Some v | None \<Rightarrow>
               def_param q)))
      else None)"
  by (simp only: final_params_def Let_def scan_params_apply)

lemma def_param_defined: "q \<in> set params \<Longrightarrow> def_param q \<noteq> None"
  by (auto simp: params_def def_param_def)

text \<open>
  Claim C1. For each of the three fields the resolved value is the value of the first of
  the four layers (block of the file, supplied block, global block, default block) that
  holds the field, whatever the other fields and layers are; the default block holds all
  three fields, so every field is populated. The layers are the blocks as the file loop
  hands them to the scan, which for each file are the ones of \<open>final_params\<close>.
\<close>

theorem precedence_law:
  assumes "p \<in> set params"
  shows "scan_params params [per_file, supplied, global, def_param] Map.empty p =
           (case per_file p of Some v \<Rightarrow> Some v | None \<Rightarrow>
             (case supplied p of Some v \<Rightarrow> Some v | None \<Rightarrow>
               (case global p of Some v \<Rightarrow> Some v | None \<Rightarrow> def_param p)))
         \<and> scan_params params [per_file, supplied, global, def_param] Map.empty p \<noteq> None
         \<and> final_params rule_data supplied svg_file =
             scan_params params
               [local_param (curate_at svg_file rule_data) svg_file, supplied,
                global_param (curate_at svg_file rule_data), def_param] Map.empty"
proof -
  have eq: "scan_params params [per_file, supplied, global, def_param] Map.empty p =
           (case per_file p of Some v \<Rightarrow> Some v | None \<Rightarrow>
             (case supplied p of Some v \<Rightarrow> Some v | None \<Rightarrow>
               (case global p of Some v \<Rightarrow> Some v | None \<Rightarrow> def_param p)))"
    using assms by (simp only: scan_params_apply if_True)
  have "scan_params params [per_file, supplied, global, def_param] Map.empty p \<noteq> None"
    unfolding eq using def_param_defined [OF assms] by (simp split: option.splits)
  moreover have "final_params rule_data supplied svg_file =
             scan_params params
               [local_param (curate_at svg_file rule_data) svg_file, supplied,
                global_param (curate_at svg_file rule_data), def_param] Map.empty"
    by (simp only: final_params_def Let_def)
  ultimately show ?thesis using eq by blast
qed

text \<open>The second example of the specification: the file asks for jpg, the command line
  for bmp at 400 by 400; the size comes from the command line.\<close>

theorem precedence_law_witness:
  "''size'' \<in> set params
   \<and> scan_params params
        [[''format'' \<mapsto> PStr ''jpg''],
         [''format'' \<mapsto> PStr ''bmp'', ''size'' \<mapsto> PList [PInt 400, PInt 400]],
         Map.empty, def_param] Map.empty ''size'' = Some (PList [PInt 400, PInt 400])"
  using precedence_law [of "''size''" "[''format'' \<mapsto> PStr ''jpg'']"
      "[''format'' \<mapsto> PStr ''bmp'', ''size'' \<mapsto> PList [PInt 400, PInt 400]]" Map.empty]
  by (simp add: params_def)

lemma curated_param_eq:
  "curated_param blk = (if blk ''size'' = Some (PStr ''default'') then blk(''size'' \<mapsto> PNone) else blk)"
  by (auto simp: curated_param_def)

lemma curate_at_apply:
  "curate_at key rule_data k = (if k = key then map_option curated_param (rule_data k) else rule_data k)"
  by (auto simp: curate_at_def split: option.splits)

text \<open>
  Claim C3, as stated, fails: with a global size of 300 by 300, the block of the file
  with size \<^verbatim>\<open>"default"\<close> resolves to no size, the block without a size resolves to
  the global size.
\<close>

theorem default_size_counterexample:
  "final_params rules_default_size Map.empty ''gauge'' ''size'' = Some PNone
   \<and> final_params rules_no_size Map.empty ''gauge'' ''size'' = Some (PList [PInt 300, PInt 300])
   \<and> rules_no_size ''gauge'' = Some Map.empty"
  by (simp add: final_params_apply params_def rules_default_size_def rules_no_size_def
      curate_at_apply curated_param_eq local_param_def global_param_def def_param_def)

text \<open>
  Claim C3, amended. A block whose size is \<^verbatim>\<open>"default"\<close> resolves like the same
  block with the size key absent, except that for the block of the file the resolved size
  is \<^verbatim>\<open>None\<close> whatever the supplied and global blocks hold; for the global block
  (normalised at the start of the batch) the result is the same as with the key absent.
\<close>

theorem default_size_sentinel:
  assumes "blk ''size'' = Some (PStr ''default'')"
  shows "final_params (rule_data(svg_file \<mapsto> blk)) supplied svg_file =
           (final_params (rule_data(svg_file \<mapsto> blk(''size'' := None))) supplied svg_file)
             (''size'' \<mapsto> PNone)
         \<and> (svg_file \<noteq> ''_globalrule_'' \<longrightarrow>
              final_params (curate_at ''_globalrule_'' (rule_data(''_globalrule_'' \<mapsto> blk)))
                  supplied svg_file =
              final_params
                  (curate_at ''_globalrule_'' (rule_data(''_globalrule_'' \<mapsto> blk(''size'' := None))))
                  supplied svg_file)"
proof (intro conjI impI)
  show "final_params (rule_data(svg_file \<mapsto> blk)) supplied svg_file =
           (final_params (rule_data(svg_file \<mapsto> blk(''size'' := None))) supplied svg_file)
             (''size'' \<mapsto> PNone)"
  proof
    fix q
    show "final_params (rule_data(svg_file \<mapsto> blk)) supplied svg_file q =
           ((final_params (rule_data(svg_file \<mapsto> blk(''size'' := None))) supplied svg_file)
             (''size'' \<mapsto> PNone)) q"
      using assms
      by (auto simp: final_params_apply curate_at_apply curated_param_eq local_param_def
          global_param_def params_def split: option.splits)
  qed
next
  assume ne: "svg_file \<noteq> ''_globalrule_''"
  show "final_params (curate_at ''_globalrule_'' (rule_data(''_globalrule_'' \<mapsto> blk)))
                  supplied svg_file =
              final_params
                  (curate_at ''_globalrule_'' (rule_data(''_globalrule_'' \<mapsto> blk(''size'' := None))))
                  supplied svg_file"
  proof
    fix q
    show "final_params (curate_at ''_globalrule_'' (rule_data(''_globalrule_'' \<mapsto> blk)))
                  supplied svg_file q =
              final_params
                  (curate_at ''_globalrule_'' (rule_data(''_globalrule_'' \<mapsto> blk(''size'' := None))))
                  supplied svg_file q"
      using assms ne
      by (auto simp: final_params_apply curate_at_apply curated_param_eq local_param_def
          global_param_def params_def def_param_def split: option.splits)
  qed
qed

theorem default_size_sentinel_witness:
  "[''size'' \<mapsto> PStr ''default''] ''size'' = Some (PStr ''default'')
   \<and> final_params (rules_no_size(''gauge'' \<mapsto> [''size'' \<mapsto> PStr ''default''])) Map.empty ''gauge'' =
       (final_params (rules_no_size(''gauge'' \<mapsto> [''size'' \<mapsto> PStr ''default''](''size'' := None)))
          Map.empty ''gauge'')(''size'' \<mapsto> PNone)
   \<and> ''gauge'' \<noteq> ''_globalrule_''
   \<and> final_params
         (curate_at ''_globalrule_'' (rules_no_size(''_globalrule_'' \<mapsto> [''size'' \<mapsto> PStr ''default''])))
         Map.empty ''gauge'' =
       final_params
         (curate_at ''_globalrule_''
            (rules_no_size(''_globalrule_'' \<mapsto> [''size'' \<mapsto> PStr ''default''](''size'' := None))))
         Map.empty ''gauge''"
  using default_size_sentinel [of "[''size'' \<mapsto> PStr ''default'']" rules_no_size "''gauge''" Map.empty]
  by simp

section \<open>Properties of the command line's overrides\<close>

text \<open>
  Claim C10. Without \<^verbatim>\<open>--drawing_only\<close> the main block keeps
  \<^verbatim>\<open>f_drawing_only = True\<close> and passes it on, so the supplied block always holds
  \<^verbatim>\<open>drawing_only\<close> with the value true; the resolved value is then the one of the
  block of the file when it has one and true otherwise, and the global block is never
  read for this field.
\<close>

theorem cli_drawing_only_shadows_global:
  "main_drawing_only None w = (Inr True, w)
   \<and> supplied_params file_format sz (PBool True) ''drawing_only'' = Some (PBool True)
   \<and> final_params rule_data (supplied_params file_format sz (PBool True)) svg_file ''drawing_only'' =
       Some (case local_param (curate_at svg_file rule_data) svg_file ''drawing_only'' of
               Some v \<Rightarrow> v
             | None \<Rightarrow> PBool True)
   \<and> main env (a\<lparr>args_drawing_only := None\<rparr>) w =
       and_then (main_size (args_size a) w) (\<lambda>image_size w.
         export_svg env (args_srcdir a) (args_outdir a) (args_rules a)
           (case args_format a of None \<Rightarrow> PNone | Some f \<Rightarrow> PStr f)
           image_size (PBool True)
           (case args_inkscape a of
              None \<Rightarrow> ''default''
            | Some i \<Rightarrow> if i \<noteq> [] then i else ''default'')
           w)"
proof -
  have 1: "main_drawing_only None w = (Inr True, w)"
    by (simp add: main_drawing_only_def)
  have 2: "supplied_params file_format sz (PBool True) ''drawing_only'' = Some (PBool True)"
    by (simp add: supplied_params_def Let_def)
  have 3: "final_params rule_data (supplied_params file_format sz (PBool True)) svg_file ''drawing_only'' =
       Some (case local_param (curate_at svg_file rule_data) svg_file ''drawing_only'' of
               Some v \<Rightarrow> v
             | None \<Rightarrow> PBool True)"
    by (simp add: final_params_apply 2 params_def split: option.splits)
  have 4: "main env (a\<lparr>args_drawing_only := None\<rparr>) w =
       and_then (main_size (args_size a) w) (\<lambda>image_size w.
         export_svg env (args_srcdir a) (args_outdir a) (args_rules a)
           (case args_format a of None \<Rightarrow> PNone | Some f \<Rightarrow> PStr f)
           image_size (PBool True)
           (case args_inkscape a of
              None \<Rightarrow> ''default''
            | Some i \<Rightarrow> if i \<noteq> [] then i else ''default'')
           w)"
    by (simp add: main_def 1 and_then_def)
  from 1 2 3 4 show ?thesis by blast
qed

section \<open>Writes to the rule store\<close>

lemma curated_param_idem: "curated_param (curated_param blk) = curated_param blk"
  by (simp add: curated_param_eq)

lemma process_file_rules:
  "fst (snd (process_file env ip src out spl f rd w)) = curate_at f rd"
  by (simp add: process_file_def Let_def split: option.splits pyval.splits prod.splits)

lemma curate_at_change:
  "curate_at key rd k = rd k
   \<or> (k = key \<and> (\<exists>blk. rd k = Some blk \<and> blk ''size'' = Some (PStr ''default'')
         \<and> curate_at key rd k = Some (blk(''size'' \<mapsto> PNone))))"
  by (cases "rd k") (auto simp: curate_at_apply curated_param_eq)

lemma curate_at_default:
  "curate_at key rd k = Some blk \<Longrightarrow> blk ''size'' = Some (PStr ''default'') \<Longrightarrow> rd k = Some blk"
  by (cases "rd k") (auto simp: curate_at_apply curated_param_eq split: if_splits)

lemma export_loop_rules:
  "fst (snd (export_loop env ip src out spl fs rd w)) k = rd k
   \<or> (k \<in> set fs \<and> (\<exists>blk. rd k = Some blk \<and> blk ''size'' = Some (PStr ''default'')
         \<and> fst (snd (export_loop env ip src out spl fs rd w)) k = Some (blk(''size'' \<mapsto> PNone))))"
proof (induction fs arbitrary: rd w)
  case Nil
  show ?case by simp
next
  case (Cons f fs)
  obtain res rd1 w1 where p: "process_file env ip src out spl f rd w = (res, rd1, w1)"
    by (cases "process_file env ip src out spl f rd w") auto
  have rd1: "rd1 = curate_at f rd"
    using process_file_rules [of env ip src out spl f rd w] p by simp
  show ?case
  proof (cases res)
    case (Inl e)
    then have e: "fst (snd (export_loop env ip src out spl (f # fs) rd w)) = curate_at f rd"
      using p rd1 by simp
    have "k = f \<Longrightarrow> k \<in> set (f # fs)" by simp
    with curate_at_change [of f rd k] show ?thesis
      unfolding e by blast
  next
    case (Inr u)
    define R where "R = fst (snd (export_loop env ip src out spl fs rd1 w1))"
    have e: "fst (snd (export_loop env ip src out spl (f # fs) rd w)) = R"
      using p Inr by (simp add: R_def)
    have ih: "R k = rd1 k
       \<or> (k \<in> set fs \<and> (\<exists>blk. rd1 k = Some blk \<and> blk ''size'' = Some (PStr ''default'')
             \<and> R k = Some (blk(''size'' \<mapsto> PNone))))"
      using Cons.IH [of rd1 w1] by (simp only: R_def)
    have step: "rd1 k = rd k
       \<or> (k = f \<and> (\<exists>blk. rd k = Some blk \<and> blk ''size'' = Some (PStr ''default'')
             \<and> rd1 k = Some (blk(''size'' \<mapsto> PNone))))"
      unfolding rd1 by (rule curate_at_change)
    have mem: "k \<in> set fs \<Longrightarrow> k \<in> set (f # fs)" "k = f \<Longrightarrow> k \<in> set (f # fs)"
      by simp_all
    have orig: "\<And>blk. rd1 k = Some blk \<Longrightarrow> blk ''size'' = Some (PStr ''default'') \<Longrightarrow> rd k = Some blk"
      unfolding rd1 by (rule curate_at_default)
    show ?thesis
      unfolding e using ih step mem orig by metis
  qed
qed

text \<open>
  Claim C8, as stated, fails: resolving the parameters of \<^verbatim>\<open>gauge\<close> overwrites the
  size \<^verbatim>\<open>"default"\<close> in the block stored for it in the rules document.
\<close>

theorem rule_store_counterexample:
  "(case rules_default_size ''gauge'' of Some blk \<Rightarrow> blk ''size'' | None \<Rightarrow> None) =
     Some (PStr ''default'')
   \<and> (case fst (snd (process_file sample_env ''/usr/bin/inkscape'' ''src'' ''out'' Map.empty
                       ''gauge'' rules_default_size sample_world)) ''gauge'' of
         Some blk \<Rightarrow> blk ''size''
       | None \<Rightarrow> None) = Some PNone"
  by (simp add: process_file_rules curate_at_apply curated_param_eq rules_default_size_def)

text \<open>
  Claim C8, amended. The only writes of the batch to the rules document are the ones of
  \<^verbatim>\<open>curated_param\<close>: after the file loop, however it ends, every entry is as it was, or
  it is the block of a file of the batch whose size \<^verbatim>\<open>"default"\<close> has been overwritten
  with \<^verbatim>\<open>None\<close>; the step before the loop does the same to the global block; one pass
  of the loop leaves the store as \<^verbatim>\<open>curated_param\<close> on the block of its file leaves it.
\<close>

theorem rule_store_frame:
  "(fst (snd (export_loop env ip src out spl svg_files rule_data w)) k = rule_data k
      \<or> (k \<in> set svg_files
          \<and> (\<exists>blk. rule_data k = Some blk \<and> blk ''size'' = Some (PStr ''default'')
                \<and> fst (snd (export_loop env ip src out spl svg_files rule_data w)) k =
                    Some (blk(''size'' \<mapsto> PNone)))))
   \<and> (curate_at ''_globalrule_'' rule_data k = rule_data k
      \<or> (k = ''_globalrule_''
          \<and> (\<exists>blk. rule_data k = Some blk \<and> blk ''size'' = Some (PStr ''default'')
                \<and> curate_at ''_globalrule_'' rule_data k = Some (blk(''size'' \<mapsto> PNone)))))
   \<and> fst (snd (process_file env ip src out spl svg_file rule_data w)) =
       curate_at svg_file rule_data"
  using export_loop_rules [of env ip src out spl svg_files rule_data w k]
    curate_at_change [of "''_globalrule_''" rule_data k]
    process_file_rules [of env ip src out spl svg_file rule_data w]
  by blast

section \<open>Properties of the conversion of one file\<close>

lemma size_args_pair: "size_args (PList (a # b # r)) = Inr [''-w'', py_str a, ''-h'', py_str b]"
  by (simp add: size_args_def)

lemma size_args_none: "size_args PNone = Inr []"
  by (simp add: size_args_def)

lemma base_cmd_eq:
  "base_cmd ip src d =
     [ip, ''-f'', src, if truthy d then ''--export-area-drawing'' else ''--export-area-page'']"
  by (simp add: base_cmd_def Let_def)

lemma is_inkscape_lowercase:
  "is_inkscape_format ''png''" "is_inkscape_format ''pdf''" "is_inkscape_format ''ps''"
  "is_inkscape_format ''eps''"
  by (simp_all add: is_inkscape_format_iff INKSCAPE_FORMATS_def py_lower_def lower_char_def)

lemma classify_relay: "classify f = Relay \<longleftrightarrow> \<not> is_inkscape_format f \<and> is_pillow_format f"
  using not_both_formats [of f] by (auto simp: classify_def)

text \<open>
  Claim C5. With a size of at least two entries, the png command ends in the export flag
  followed by \<^verbatim>\<open>-w\<close>, the width, \<^verbatim>\<open>-h\<close>, the height; the pdf, ps and eps commands
  end in the export flag whatever the size is, which is dropped without an error; the
  command of a relay format exports the temporary png with the size flags. Without a size
  (\<^verbatim>\<open>None\<close>) the png command and the relay command end in the export flag. Every
  command starts with the renderer, \<^verbatim>\<open>-f\<close>, the source and the crop flag.
\<close>

theorem size_flags:
  "convert_via_inkscape env ip src out ''png'' (PList (a # b # r)) d w =
     run_command env (base_cmd ip src d @ [''--export-png='' @ out, ''-w'', py_str a, ''-h'', py_str b]) w
   \<and> (f \<in> {''pdf'', ''ps'', ''eps''} \<longrightarrow>
        convert_via_inkscape env ip src out f sz d w =
          run_command env (base_cmd ip src d @ [''--export-'' @ f @ ''='' @ out]) w)
   \<and> (classify g = Relay \<longrightarrow>
        relay_cmd env ip src (PList (a # b # r)) d =
          Inr (base_cmd ip src d @ [''--export-png='' @ tempf_path env, ''-w'', py_str a, ''-h'', py_str b])
        \<and> convert_via_inkscape env ip src out g (PList (a # b # r)) d w =
            (case run_command env
                    (base_cmd ip src d
                       @ [''--export-png='' @ tempf_path env, ''-w'', py_str a, ''-h'', py_str b]) w of
               (Inl e, w') \<Rightarrow> (Inl e, w')
             | (Inr u, w') \<Rightarrow>
                 remove_finally (tempf_path env) (relay_try env (tempf_path env) out w'))
        \<and> convert_via_inkscape env ip src out g PNone d w =
            (case run_command env (base_cmd ip src d @ [''--export-png='' @ tempf_path env]) w of
               (Inl e, w') \<Rightarrow> (Inl e, w')
             | (Inr u, w') \<Rightarrow>
                 remove_finally (tempf_path env) (relay_try env (tempf_path env) out w')))
   \<and> convert_via_inkscape env ip src out ''png'' PNone d w =
       run_command env (base_cmd ip src d @ [''--export-png='' @ out]) w
   \<and> base_cmd ip src d =
       [ip, ''-f'', src, if truthy d then ''--export-area-drawing'' else ''--export-area-page'']"
proof -
  have 1: "convert_via_inkscape env ip src out ''png'' (PList (a # b # r)) d w =
     run_command env (base_cmd ip src d @ [''--export-png='' @ out, ''-w'', py_str a, ''-h'', py_str b]) w"
    by (simp add: convert_via_inkscape_def is_inkscape_lowercase native_cmd_def size_args_pair Let_def)
  have 2: "convert_via_inkscape env ip src out f sz d w =
          run_command env (base_cmd ip src d @ [''--export-'' @ f @ ''='' @ out]) w"
    if "f \<in> {''pdf'', ''ps'', ''eps''}"
    using that
    by (auto simp: convert_via_inkscape_def is_inkscape_lowercase native_cmd_def Let_def)
  have 3: "relay_cmd env ip src (PList (a # b # r)) d =
          Inr (base_cmd ip src d @ [''--export-png='' @ tempf_path env, ''-w'', py_str a, ''-h'', py_str b])"
    by (simp add: relay_cmd_def size_args_pair Let_def)
  have 6: "relay_cmd env ip src PNone d =
          Inr (base_cmd ip src d @ [''--export-png='' @ tempf_path env])"
    by (simp add: relay_cmd_def size_args_none Let_def)
  have 4: "convert_via_inkscape env ip src out g sz' d w =
            (case relay_cmd env ip src sz' d of
               Inl e \<Rightarrow> (Inl e, w)
             | Inr cmd \<Rightarrow>
                (case run_command env cmd w of
                   (Inl e, w') \<Rightarrow> (Inl e, w')
                 | (Inr u, w') \<Rightarrow>
                     remove_finally (tempf_path env) (relay_try env (tempf_path env) out w')))"
    if "classify g = Relay" for sz'
    using that by (simp add: classify_relay convert_via_inkscape_def)
  have 5: "convert_via_inkscape env ip src out ''png'' PNone d w =
       run_command env (base_cmd ip src d @ [''--export-png='' @ out]) w"
    by (simp add: convert_via_inkscape_def is_inkscape_lowercase native_cmd_def size_args_none Let_def)
  show ?thesis
    using 1 2 3 4 [of "PList (a # b # r)"] 4 [of PNone] 5 base_cmd_eq [of ip src d]
    by (simp add: 3 6)
qed

theorem size_flags_witness:
  "''pdf'' \<in> {''pdf'', ''ps'', ''eps''}
   \<and> convert_via_inkscape sample_env ''/usr/bin/inkscape'' ''src/a.svg'' ''out/a.pdf'' ''pdf''
        (PList [PInt 50, PInt 50]) (PBool True) sample_world =
       run_command sample_env
         (base_cmd ''/usr/bin/inkscape'' ''src/a.svg'' (PBool True)
            @ [''--export-'' @ ''pdf'' @ ''='' @ ''out/a.pdf''])
         sample_world
   \<and> classify ''jpg'' = Relay
   \<and> relay_cmd sample_env ''/usr/bin/inkscape'' ''src/a.svg'' (PList [PInt 50, PInt 50]) (PBool True) =
       Inr (base_cmd ''/usr/bin/inkscape'' ''src/a.svg'' (PBool True)
              @ [''--export-png='' @ tempf_path sample_env,
                 ''-w'', py_str (PInt 50), ''-h'', py_str (PInt 50)])
   \<and> base_cmd ''/usr/bin/inkscape'' ''src/a.svg'' (PBool True)
         @ [''--export-png='' @ tempf_path sample_env, ''-w'', py_str (PInt 50), ''-h'', py_str (PInt 50)] =
       [''/usr/bin/inkscape'', ''-f'', ''src/a.svg'', ''--export-area-drawing'',
        ''--export-png=/tmp/mJaAjM.png'', ''-w'', ''50'', ''-h'', ''50'']"
proof -
  have h1: "''pdf'' \<in> {''pdf'', ''ps'', ''eps''}"
    by simp
  have h2: "classify ''jpg'' = Relay"
    by code_simp
  have e: "base_cmd ''/usr/bin/inkscape'' ''src/a.svg'' (PBool True)
             @ [''--export-png='' @ tempf_path sample_env, ''-w'', py_str (PInt 50), ''-h'', py_str (PInt 50)] =
           [''/usr/bin/inkscape'', ''-f'', ''src/a.svg'', ''--export-area-drawing'',
            ''--export-png=/tmp/mJaAjM.png'', ''-w'', ''50'', ''-h'', ''50'']"
    by code_simp
  from size_flags [where env = sample_env and ip = "''/usr/bin/inkscape''" and src = "''src/a.svg''"
      and out = "''out/a.pdf''" and a = "PInt 50" and b = "PInt 50" and r = "[]" and d = "PBool True"
      and w = sample_world and f = "''pdf''" and sz = "PList [PInt 50, PInt 50]" and g = "''jpg''"]
    h1 h2 e
  show ?thesis
    by blast
qed

text \<open>
  Claim C9. A format that passes the renderer's format test without being one of the four
  lowercase names (\<^verbatim>\<open>"PNG"\<close>, \<^verbatim>\<open>"Pdf"\<close>) takes the native branch, where none of the
  four comparisons holds: the command is the renderer, \<^verbatim>\<open>-f\<close>, the source and the crop
  flag, with no export flag, no output path and no size flags; the conversion is the run
  of that command, and it returns normally whenever the process could be started.
\<close>

theorem uppercase_native_incomplete_command:
  assumes "is_inkscape_format f" and "f \<notin> set INKSCAPE_FORMATS"
  shows "native_cmd ip src out f sz d = Inr (base_cmd ip src d)
         \<and> base_cmd ip src d =
             [ip, ''-f'', src, if truthy d then ''--export-area-drawing'' else ''--export-area-page'']
         \<and> convert_via_inkscape env ip src out f sz d w = run_command env (base_cmd ip src d) w
         \<and> (\<forall>fs. subprocess_run env (base_cmd ip src d) (files w) = Inr fs \<longrightarrow>
               convert_via_inkscape env ip src out f sz d w =
                 (Inr (), w\<lparr>files := fs, invoked := invoked w @ [base_cmd ip src d]\<rparr>))"
proof -
  from assms(2) have ne: "f \<noteq> ''png''" "f \<noteq> ''pdf''" "f \<noteq> ''ps''" "f \<noteq> ''eps''"
    by (simp_all add: INKSCAPE_FORMATS_def)
  then have n: "native_cmd ip src out f sz d = Inr (base_cmd ip src d)"
    by (simp add: native_cmd_def Let_def)
  then have c: "convert_via_inkscape env ip src out f sz d w = run_command env (base_cmd ip src d) w"
    using assms(1) by (simp add: convert_via_inkscape_def)
  have "\<forall>fs. subprocess_run env (base_cmd ip src d) (files w) = Inr fs \<longrightarrow>
               convert_via_inkscape env ip src out f sz d w =
                 (Inr (), w\<lparr>files := fs, invoked := invoked w @ [base_cmd ip src d]\<rparr>)"
    unfolding c by (simp add: run_command_def)
  with n c base_cmd_eq [of ip src d] show ?thesis by blast
qed

theorem uppercase_native_incomplete_command_witness:
  "is_inkscape_format ''PNG'' \<and> ''PNG'' \<notin> set INKSCAPE_FORMATS
   \<and> native_cmd ''/usr/bin/inkscape'' ''src/a.svg'' ''out/a.PNG'' ''PNG'' (PList [PInt 50, PInt 50])
        (PBool True) =
       Inr (base_cmd ''/usr/bin/inkscape'' ''src/a.svg'' (PBool True))
   \<and> base_cmd ''/usr/bin/inkscape'' ''src/a.svg'' (PBool True) =
       [''/usr/bin/inkscape'', ''-f'', ''src/a.svg'', ''--export-area-drawing'']
   \<and> convert_via_inkscape sample_env ''/usr/bin/inkscape'' ''src/a.svg'' ''out/a.PNG'' ''PNG''
        (PList [PInt 50, PInt 50]) (PBool True) sample_world =
       run_command sample_env (base_cmd ''/usr/bin/inkscape'' ''src/a.svg'' (PBool True)) sample_world
   \<and> fst (run_command sample_env (base_cmd ''/usr/bin/inkscape'' ''src/a.svg'' (PBool True))
            sample_world) = Inr ()
   \<and> invoked (snd (run_command sample_env (base_cmd ''/usr/bin/inkscape'' ''src/a.svg'' (PBool True))
            sample_world)) =
       [[''/usr/bin/inkscape'', ''-f'', ''src/a.svg'', ''--export-area-drawing'']]"
proof -
  have h1: "is_inkscape_format ''PNG''"
    by code_simp
  have h2: "''PNG'' \<notin> set INKSCAPE_FORMATS"
    by code_simp
  have b: "base_cmd ''/usr/bin/inkscape'' ''src/a.svg'' (PBool True) =
       [''/usr/bin/inkscape'', ''-f'', ''src/a.svg'', ''--export-area-drawing'']"
    by code_simp
  have e1: "fst (run_command sample_env (base_cmd ''/usr/bin/inkscape'' ''src/a.svg'' (PBool True))
            sample_world) = Inr ()"
    by code_simp
  have e2: "invoked (snd (run_command sample_env (base_cmd ''/usr/bin/inkscape'' ''src/a.svg'' (PBool True))
            sample_world)) =
       [[''/usr/bin/inkscape'', ''-f'', ''src/a.svg'', ''--export-area-drawing'']]"
    by code_simp
  from uppercase_native_incomplete_command [OF h1 h2, where env = sample_env
      and ip = "''/usr/bin/inkscape''" and src = "''src/a.svg''" and out = "''out/a.PNG''"
      and sz = "PList [PInt 50, PInt 50]" and d = "PBool True" and w = sample_world] h1 h2 b e1 e2
  show ?thesis
    by blast
qed

lemma remove_finally_absent: "tmp \<notin> files (snd (remove_finally tmp r))"
  by (cases r) (simp add: remove_finally_def)

text \<open>
  Claim C4. For a relay format, once the renderer has been started the temporary png is
  gone when the conversion ends, whatever the renderer, the import of Pillow, the opening
  of the temporary file and the saving did: the \<^verbatim>\<open>finally\<close> block runs in every case.
  When the conversion ends before the renderer is started (the size cannot be indexed, or
  the process cannot be started) nothing was written, so a temporary directory without
  the file before the conversion is without it afterwards in every case.
\<close>

theorem relay_cleanup:
  assumes "classify f = Relay"
  shows "(invoked (snd (convert_via_inkscape env ip src out f sz d w)) \<noteq> invoked w \<longrightarrow>
            tempf_path env \<notin> files (snd (convert_via_inkscape env ip src out f sz d w)))
         \<and> (tempf_path env \<notin> files w \<longrightarrow>
            tempf_path env \<notin> files (snd (convert_via_inkscape env ip src out f sz d w)))
         \<and> tempf_path env
             \<notin> files (snd (remove_finally (tempf_path env) (relay_try env (tempf_path env) out w1)))"
proof -
  have conv: "convert_via_inkscape env ip src out f sz d w =
            (case relay_cmd env ip src sz d of
               Inl e \<Rightarrow> (Inl e, w)
             | Inr cmd \<Rightarrow>
                (case run_command env cmd w of
                   (Inl e, w') \<Rightarrow> (Inl e, w')
                 | (Inr u, w') \<Rightarrow>
                     remove_finally (tempf_path env) (relay_try env (tempf_path env) out w')))"
    using assms by (simp add: classify_relay convert_via_inkscape_def)
  have run: "run_command env cmd w = (Inl e, w') \<Longrightarrow> w' = w" for cmd e w'
    by (auto simp: run_command_def split: sum.splits)
  have "snd (convert_via_inkscape env ip src out f sz d w) = w
        \<or> tempf_path env \<notin> files (snd (convert_via_inkscape env ip src out f sz d w))"
  proof (cases "relay_cmd env ip src sz d")
    case (Inl e)
    then show ?thesis by (simp add: conv)
  next
    case (Inr cmd)
    obtain res w' where rc: "run_command env cmd w = (res, w')"
      by (cases "run_command env cmd w") auto
    show ?thesis
    proof (cases res)
      case (Inl e)
      with rc run [of cmd e w'] Inr show ?thesis by (simp add: conv)
    next
      case r: (Inr u)
      with rc Inr show ?thesis by (simp add: conv remove_finally_absent)
    qed
  qed
  then show ?thesis
    using remove_finally_absent [of "tempf_path env" "relay_try env (tempf_path env) out w1"]
    by auto
qed

theorem relay_cleanup_witness:
  "classify ''jpg'' = Relay
   \<and> invoked (snd (convert_via_inkscape sample_env ''/usr/bin/inkscape'' ''src/b.svg'' ''out/b.jpg''
         ''jpg'' (PList [PInt 50, PInt 50]) (PBool True) sample_world)) \<noteq> invoked sample_world
   \<and> tempf_path sample_env \<notin> files sample_world
   \<and> tempf_path sample_env
        \<notin> files (snd (convert_via_inkscape sample_env ''/usr/bin/inkscape'' ''src/b.svg'' ''out/b.jpg''
              ''jpg'' (PList [PInt 50, PInt 50]) (PBool True) sample_world))
   \<and> ''out/b.jpg''
        \<in> files (snd (convert_via_inkscape sample_env ''/usr/bin/inkscape'' ''src/b.svg'' ''out/b.jpg''
              ''jpg'' (PList [PInt 50, PInt 50]) (PBool True) sample_world))"
proof -
  have h: "classify ''jpg'' = Relay"
    by code_simp
  have i: "invoked (snd (convert_via_inkscape sample_env ''/usr/bin/inkscape'' ''src/b.svg'' ''out/b.jpg''
         ''jpg'' (PList [PInt 50, PInt 50]) (PBool True) sample_world)) \<noteq> invoked sample_world"
    by code_simp
  have t: "tempf_path sample_env \<notin> files sample_world"
    by code_simp
  have o: "''out/b.jpg''
        \<in> files (snd (convert_via_inkscape sample_env ''/usr/bin/inkscape'' ''src/b.svg'' ''out/b.jpg''
              ''jpg'' (PList [PInt 50, PInt 50]) (PBool True) sample_world))"
    by code_simp
  from relay_cleanup [OF h, where env = sample_env and ip = "''/usr/bin/inkscape''"
      and src = "''src/b.svg''" and out = "''out/b.jpg''" and sz = "PList [PInt 50, PInt 50]"
      and d = "PBool True" and w = sample_world] h i t o
  show ?thesis
    by blast
qed

text \<open>The two failing cases on the sample: Pillow missing, and a save that raises.\<close>

lemma relay_cleanup_import_failure:
  "fst (convert_via_inkscape (sample_env\<lparr>pil_installed := False\<rparr>) ''/usr/bin/inkscape''
          ''src/b.svg'' ''out/b.jpg'' ''jpg'' PNone (PBool True) sample_world) =
     Inl (SystemExit (Some 1))
   \<and> ''/tmp/mJaAjM.png''
        \<notin> files (snd (convert_via_inkscape (sample_env\<lparr>pil_installed := False\<rparr>)
              ''/usr/bin/inkscape'' ''src/b.svg'' ''out/b.jpg'' ''jpg'' PNone (PBool True) sample_world))"
  by code_simp

lemma relay_cleanup_save_failure:
  "fst (convert_via_inkscape (sample_env\<lparr>pil_save := \<lambda>tmp out fs. (Some (OSError ''save''), fs)\<rparr>)
          ''/usr/bin/inkscape'' ''src/b.svg'' ''out/b.jpg'' ''jpg'' PNone (PBool True) sample_world) =
     Inl (OSError ''save'')
   \<and> ''/tmp/mJaAjM.png''
        \<notin> files (snd (convert_via_inkscape
              (sample_env\<lparr>pil_save := \<lambda>tmp out fs. (Some (OSError ''save''), fs)\<rparr>)
              ''/usr/bin/inkscape'' ''src/b.svg'' ''out/b.jpg'' ''jpg'' PNone (PBool True) sample_world))"
  by code_simp

section \<open>Properties of the batch\<close>

lemma export_loop_append:
  "export_loop env ip src out spl (pre @ rest) rd w =
     (case export_loop env ip src out spl pre rd w of
        (Inl e, rd', w') \<Rightarrow> (Inl e, rd', w')
      | (Inr u, rd', w') \<Rightarrow> export_loop env ip src out spl rest rd' w')"
proof (induction pre arbitrary: rd w)
  case Nil
  show ?case by simp
next
  case (Cons f pre)
  show ?case
    by (simp add: Cons.IH split: prod.splits sum.splits)
qed

lemma final_params_defined: "q \<in> set params \<Longrightarrow> final_params rd spl f q \<noteq> None"
  using def_param_defined [of q]
  by (auto simp: final_params_apply split: option.splits)

lemma process_file_unsupported:
  assumes "final_params rd spl f ''format'' = Some (PStr fmt)" and "classify fmt = Unsupported"
  shows "process_file env ip src out spl f rd w =
           (Inl (SystemExit (Some 1)), curate_at f rd,
            w\<lparr>stdout := stdout w @ [''Unsupported file format to export: '' @ fmt]\<rparr>)"
proof -
  obtain sz where s: "final_params rd spl f ''size'' = Some sz"
    using final_params_defined [of "''size''" rd spl f] by (auto simp: params_def)
  obtain dr where d: "final_params rd spl f ''drawing_only'' = Some dr"
    using final_params_defined [of "''drawing_only''" rd spl f] by (auto simp: params_def)
  from assms(2) have n: "\<not> is_inkscape_format fmt" "\<not> is_pillow_format fmt"
    by (auto simp: classify_def split: if_splits)
  show ?thesis
    by (simp add: process_file_def Let_def assms(1) s d convert_via_inkscape_def n
        report_error_def and_then_def)
qed

text \<open>
  Claim C2, amended. When the loop has come through the files before one whose resolved
  format is neither a renderer format nor a Pillow format, that file's conversion prints
  the unsupported-format message and raises \<^verbatim>\<open>SystemExit(1)\<close>, which nothing in
  \<^verbatim>\<open>export_svg\<close> catches: the loop ends there, with no command started for this file
  and none of the later files looked at.
\<close>

theorem unsupported_format_ends_batch:
  assumes "export_loop env ip src out spl pre rule_data w = (Inr (), rd1, w1)"
    and "final_params rd1 spl svg_file ''format'' = Some (PStr fmt)"
    and "classify fmt = Unsupported"
  shows "export_loop env ip src out spl (pre @ svg_file # rest) rule_data w =
           (Inl (SystemExit (Some 1)), curate_at svg_file rd1,
            w1\<lparr>stdout := stdout w1 @ [''Unsupported file format to export: '' @ fmt]\<rparr>)"
  by (simp add: export_loop_append assms(1) process_file_unsupported [OF assms(2) assms(3)])

text \<open>
  Claim C2, as stated, fails: on the sample, where \<^verbatim>\<open>a\<close> asks for the format
  \<^verbatim>\<open>xyz\<close> and \<^verbatim>\<open>b\<close> takes the default png, the batch ends with exit status 1 at
  \<^verbatim>\<open>a\<close>; no command is started and \<^verbatim>\<open>out/b.png\<close> is not written, although the same
  batch without the rules file writes it.
\<close>

theorem unsupported_format_counterexample:
  "fst (export_svg sample_env ''src'' ''out'' (Some ''rules.json'') PNone PNone PNone ''default''
          sample_world) = Inl (SystemExit (Some 1))
   \<and> invoked (snd (export_svg sample_env ''src'' ''out'' (Some ''rules.json'') PNone PNone PNone
          ''default'' sample_world)) = []
   \<and> ''out/b.png'' \<notin> files (snd (export_svg sample_env ''src'' ''out'' (Some ''rules.json'') PNone
          PNone PNone ''default'' sample_world))
   \<and> ''out/b.png'' \<in> files (snd (export_svg sample_env ''src'' ''out'' None PNone
          PNone PNone ''default'' sample_world))"
  by code_simp

theorem unsupported_format_ends_batch_witness:
  "fst (export_loop sample_env ''/usr/bin/inkscape'' ''src'' ''out'' Map.empty [''b''] sample_rules
          sample_world) = Inr ()
   \<and> final_params
        (fst (snd (export_loop sample_env ''/usr/bin/inkscape'' ''src'' ''out'' Map.empty [''b'']
                     sample_rules sample_world)))
        Map.empty ''a'' ''format'' = Some (PStr ''xyz'')
   \<and> classify ''xyz'' = Unsupported
   \<and> fst (export_loop sample_env ''/usr/bin/inkscape'' ''src'' ''out'' Map.empty
            ([''b''] @ ''a'' # [''c'']) sample_rules sample_world) = Inl (SystemExit (Some 1))
   \<and> invoked (snd (snd (export_loop sample_env ''/usr/bin/inkscape'' ''src'' ''out'' Map.empty
            ([''b''] @ ''a'' # [''c'']) sample_rules sample_world))) =
       invoked (snd (snd (export_loop sample_env ''/usr/bin/inkscape'' ''src'' ''out'' Map.empty
            [''b''] sample_rules sample_world)))"
proof -
  define X where "X = export_loop sample_env ''/usr/bin/inkscape'' ''src'' ''out'' Map.empty [''b'']
          sample_rules sample_world"
  have h1: "fst X = Inr ()"
    unfolding X_def by code_simp
  have h2: "final_params (fst (snd X)) Map.empty ''a'' ''format'' = Some (PStr ''xyz'')"
    unfolding X_def by code_simp
  have h3: "classify ''xyz'' = Unsupported"
    by code_simp
  have x: "export_loop sample_env ''/usr/bin/inkscape'' ''src'' ''out'' Map.empty [''b'']
          sample_rules sample_world = (Inr (), fst (snd X), snd (snd X))"
    using h1 unfolding X_def by (metis prod.collapse)
  from unsupported_format_ends_batch [OF x h2 h3, of "[''c'']"] h1 h2 h3
  show ?thesis
    unfolding X_def by simp
qed

section \<open>Properties of the command line's argument checks\<close>

text \<open>
  Claim C6 on the code: a \<^verbatim>\<open>--size\<close> of one token and a \<^verbatim>\<open>--drawing_only\<close> outside
  the four tokens print their message and end the process before \<^verbatim>\<open>export_svg\<close> is
  called, but with \<^verbatim>\<open>sys.exit()\<close>, whose exit status is 0; an empty \<^verbatim>\<open>--size\<close> or
  \<^verbatim>\<open>--drawing_only\<close> is taken as not given.
\<close>

theorem malformed_arguments_exit_status:
  "main env (a\<lparr>args_drawing_only := None, args_size := Some ''50''\<rparr>) w =
     (Inl (SystemExit None),
      w\<lparr>stdout := stdout w @ [''Wrong argument supplied for --size parameter! '' @ [CHR 0x0A]
                                @ ''Use --help or -h to get help'']\<rparr>)
   \<and> main env (a\<lparr>args_drawing_only := Some ''maybe''\<rparr>) w =
     (Inl (SystemExit None),
      w\<lparr>stdout := stdout w @ [''Wrong argument supplied for --drawing_only parameter! '' @ [CHR 0x0A]
                                @ ''Use --help or -h to get help'']\<rparr>)
   \<and> exit_status (SystemExit None) = 0
   \<and> main_size (Some '''') w = (Inr PNone, w)
   \<and> main_drawing_only (Some '''') w = (Inr True, w)"
proof -
  have s: "length (py_split (CHR '','') ''50'') \<noteq> 2"
    by code_simp
  have l: "py_lower ''maybe'' = ''maybe''"
    by code_simp
  have 1: "main env (a\<lparr>args_drawing_only := None, args_size := Some ''50''\<rparr>) w =
     (Inl (SystemExit None),
      w\<lparr>stdout := stdout w @ [''Wrong argument supplied for --size parameter! '' @ [CHR 0x0A]
                                @ ''Use --help or -h to get help'']\<rparr>)"
    using s by (simp add: main_def main_drawing_only_def main_size_def and_then_def Let_def)
  have 2: "main env (a\<lparr>args_drawing_only := Some ''maybe''\<rparr>) w =
     (Inl (SystemExit None),
      w\<lparr>stdout := stdout w @ [''Wrong argument supplied for --drawing_only parameter! '' @ [CHR 0x0A]
                                @ ''Use --help or -h to get help'']\<rparr>)"
    by (simp add: main_def main_drawing_only_def and_then_def Let_def l)
  have 3: "main_size (Some '''') w = (Inr PNone, w)" "main_drawing_only (Some '''') w = (Inr True, w)"
    by (simp_all add: main_size_def main_drawing_only_def)
  from 1 2 3 show ?thesis by simp
qed

end
